theory Spec2Isabelle
  imports Main "HOL-Library.Word" "HOL-Library.Multiset"
begin

section \<open>Go strings and formatting\<close>

text \<open>
  A Go string is a sequence of bytes, here a \<^typ>\<open>string\<close>. The functions of package
  \<^verbatim>\<open>strings\<close> and the verbs of \<^verbatim>\<open>fmt.Sprintf\<close> that the generators call are written
  out. \<^verbatim>\<open>strings.ToUpper\<close> and \<^verbatim>\<open>strings.ToLower\<close> are the ASCII case mappings, which is what
  Go computes on a string of ASCII bytes; bytes from 128 on are left as they are.
\<close>

definition upper_byte :: "char \<Rightarrow> char" where
  "upper_byte c =
     (case map_of (zip ''abcdefghijklmnopqrstuvwxyz'' ''ABCDEFGHIJKLMNOPQRSTUVWXYZ'') c of
        Some u \<Rightarrow> u | None \<Rightarrow> c)"

definition lower_byte :: "char \<Rightarrow> char" where
  "lower_byte c =
     (case map_of (zip ''ABCDEFGHIJKLMNOPQRSTUVWXYZ'' ''abcdefghijklmnopqrstuvwxyz'') c of
        Some l \<Rightarrow> l | None \<Rightarrow> c)"

definition ToUpper :: "string \<Rightarrow> string" where
  "ToUpper s = map upper_byte s"

definition ToLower :: "string \<Rightarrow> string" where
  "ToLower s = map lower_byte s"

definition HasPrefix :: "string \<Rightarrow> string \<Rightarrow> bool" where
  "HasPrefix s p = (take (length p) s = p)"

primrec Contains :: "string \<Rightarrow> string \<Rightarrow> bool" where
  "Contains [] sub = (sub = [])"
| "Contains (c # s) sub = (HasPrefix (c # s) sub \<or> Contains s sub)"

fun Join :: "string list \<Rightarrow> string \<Rightarrow> string" where
  "Join [] sep = []"
| "Join [x] sep = x"
| "Join (x # y # xs) sep = x @ sep @ Join (y # xs) sep"

text \<open>\<^verbatim>\<open>strings.ReplaceAll(s, "-", "_")\<close>: the only call replaces one byte by one byte.\<close>

definition ReplaceAll_byte :: "string \<Rightarrow> char \<Rightarrow> char \<Rightarrow> string" where
  "ReplaceAll_byte s old new = map (\<lambda>c. if c = old then new else c) s"

fun digits :: "nat \<Rightarrow> string" where
  "digits n =
     (if n < 10 then [''0123456789'' ! n]
      else digits (n div 10) @ [''0123456789'' ! (n mod 10)])"

declare digits.simps [simp del]

text \<open>The verb \<^verbatim>\<open>%d\<close>.\<close>

definition itoa :: "int \<Rightarrow> string" where
  "itoa i = (if i < 0 then CHR ''-'' # digits (nat (- i)) else digits (nat i))"

text \<open>
  A value of type \<^verbatim>\<open>interface{}\<close>: the code stores strings, ints, string slices and
  booleans in such fields. \<open>fmt_v\<close> is the verb \<^verbatim>\<open>%v\<close> on them.
\<close>

datatype go_value = VString string | VInt int | VStrings "string list" | VBool bool

fun fmt_v :: "go_value \<Rightarrow> string" where
  "fmt_v (VString s) = s"
| "fmt_v (VInt i) = itoa i"
| "fmt_v (VStrings xs) = ''['' @ Join xs '' '' @ '']''"
| "fmt_v (VBool b) = (if b then ''true'' else ''false'')"

section \<open>Go maps and the order of \<^verbatim>\<open>range\<close>\<close>

text \<open>
  A Go map is the list of its entries; the keys of a map are distinct and the order of
  the list carries no information. A \<^verbatim>\<open>range\<close> statement over a map visits the entries in
  an order that the runtime chooses afresh each time. Every function with such a loop takes
  the runtime's choice as its first argument: for each place where the program ranges over
  a map (and each service index, where the loop is inside the loop over the services), the
  order in which the entries of the map are visited. A choice is admissible when it visits
  every entry once.
\<close>

type_synonym 'v gomap = "(string \<times> 'v) list"

datatype range_site =
    ComposeEnvironment nat
  | EnvFileVariables
  | EnvFileEnvironment nat
  | VarsVariables
  | InventoryVariables
  | PresetEnvironment nat
  | PresetVariables

type_synonym range_order = "range_site \<Rightarrow> string gomap \<Rightarrow> (string \<times> string) list"


text \<open>The assignment \<^verbatim>\<open>m[k] = v\<close>.\<close>

fun map_assign :: "'v gomap \<Rightarrow> string \<Rightarrow> 'v \<Rightarrow> 'v gomap" where
  "map_assign [] k v = [(k, v)]"
| "map_assign ((k', v') # m) k v =
     (if k' = k then (k, v) # m else (k', v') # map_assign m k v)"

section \<open>The domain model (pkg/types/types.go)\<close>

type_synonym ProjectType = string
type_synonym Target = string

definition TargetDocker :: Target where "TargetDocker = ''docker''"
definition TargetAnsible :: Target where "TargetAnsible = ''ansible''"

definition ProjectTypeWebApp :: ProjectType where "ProjectTypeWebApp = ''web-app''"
definition ProjectTypeMicroservice :: ProjectType where "ProjectTypeMicroservice = ''microservice''"
definition ProjectTypeDatabase :: ProjectType where "ProjectTypeDatabase = ''database''"
definition ProjectTypeML :: ProjectType where "ProjectTypeML = ''ml''"
definition ProjectTypeInfrastructure :: ProjectType where
  "ProjectTypeInfrastructure = ''infrastructure''"

text \<open>Go's \<^verbatim>\<open>int\<close> is a 64-bit word read as two's complement.\<close>

record PortConfig =
  port_Host :: "64 word"
  port_Container :: "64 word"
  port_Protocol :: string

record VolumeConfig =
  vol_Source :: string
  vol_Target :: string
  vol_ReadOnly :: bool
  vol_Type :: string

record ServiceConfig =
  svc_Name :: string
  svc_Type :: string
  svc_Image :: string
  svc_Ports :: "PortConfig list"
  svc_Volumes :: "VolumeConfig list"
  svc_Environment :: "string gomap"
  svc_DependsOn :: "string list"
  svc_Enabled :: bool

text \<open>A \<^verbatim>\<open>time.Time\<close> is the instant it denotes, in nanoseconds.\<close>

type_synonym Time = int

record ProjectConfig =
  cfg_Name :: string
  cfg_Type :: ProjectType
  cfg_Description :: string
  cfg_Version :: string
  cfg_Environment :: string
  cfg_Services :: "ServiceConfig list"
  cfg_Variables :: "string gomap"
  cfg_CreatedAt :: Time
  cfg_UpdatedAt :: Time

record GeneratedFile =
  file_Path :: string
  file_Content :: string
  file_Type :: Target
  file_Encoding :: string

record PresetService =
  ps_Name :: string
  ps_Type :: string
  ps_Description :: string
  ps_Image :: string
  ps_Ports :: "PortConfig list"
  ps_Volumes :: "VolumeConfig list"
  ps_Environment :: "string gomap"
  ps_Optional :: bool

record Preset =
  preset_ID :: string
  preset_Name :: string
  preset_Description :: string
  preset_Category :: string
  preset_Services :: "PresetService list"
  preset_Variables :: "string gomap"
  preset_Tags :: "string list"

section \<open>The validation substrate (pkg/types/validation.go)\<close>

record ValidationError =
  ve_Field :: string
  ve_Message :: string
  ve_Value :: go_value

type_synonym ValidationErrors = "ValidationError list"

definition Add :: "ValidationErrors \<Rightarrow> string \<Rightarrow> string \<Rightarrow> go_value \<Rightarrow> ValidationErrors" where
  "Add ve field message v = ve @ [\<lparr>ve_Field = field, ve_Message = message, ve_Value = v\<rparr>]"

definition HasErrors :: "ValidationErrors \<Rightarrow> bool" where
  "HasErrors ve = (length ve > 0)"

text \<open>
  A Go \<^verbatim>\<open>error\<close>: a collection of validation errors, an error made by \<^verbatim>\<open>fmt.Errorf\<close>
  from a message, or one that wraps another error (\<^verbatim>\<open>%w\<close>) behind a message. The value
  \<^verbatim>\<open>nil\<close> is \<open>None\<close> of \<open>error option\<close>. A function that returns a result and an
  error returns \<open>Inl e\<close> for \<^verbatim>\<open>(nil, e)\<close> and \<open>Inr r\<close> for \<^verbatim>\<open>(r, nil)\<close>.
\<close>

datatype error =
    ValidationFailed ValidationErrors
  | Errorf string
  | Wrapped string error

section \<open>The Docker Compose generator (package docker)\<close>

fun docker_validateServices ::
  "nat \<Rightarrow> ServiceConfig list \<Rightarrow> ValidationErrors \<Rightarrow> ValidationErrors" where
  "docker_validateServices i [] errors = errors"
| "docker_validateServices i (service # rest) errors =
     (let errors1 =
            (if svc_Name service = ''''
             then Add errors (''services['' @ itoa (int i) @ ''].name'')
                    ''service name is required'' (VString (svc_Name service))
             else errors);
          errors2 =
            (if svc_Type service = ''''
             then Add errors1 (''services['' @ itoa (int i) @ ''].type'')
                    ''service type is required'' (VString (svc_Type service))
             else errors1)
      in docker_validateServices (Suc i) rest errors2)"

definition docker_validationErrors :: "ProjectConfig \<Rightarrow> ValidationErrors" where
  "docker_validationErrors config =
     (let errors0 = [];
          errors1 =
            (if cfg_Name config = ''''
             then Add errors0 ''name'' ''project name is required'' (VString (cfg_Name config))
             else errors0);
          errors2 =
            (if length (cfg_Services config) = 0
             then Add errors1 ''services'' ''at least one service is required''
                    (VInt (int (length (cfg_Services config))))
             else errors1)
      in docker_validateServices 0 (cfg_Services config) errors2)"

definition docker_Validate :: "ProjectConfig \<Rightarrow> error option" where
  "docker_Validate config =
     (let errors = docker_validationErrors config
      in if HasErrors errors then Some (ValidationFailed errors) else None)"

text \<open>
  \<open>generateComposeYAML\<close> writes to a \<^verbatim>\<open>strings.Builder\<close>; the model returns what is
  written, in the order of the writes. \<open>serviceBlock\<close> is the body of the loop over the
  services for one service that is not skipped, \<open>composeServices\<close> the loop.
\<close>

definition dquote :: char where
  "dquote = CHR 0x22"

definition portLine :: "PortConfig \<Rightarrow> string" where
  "portLine port =
     ''      - '' @ [dquote]
     @ (if 0 < sint (port_Host port) then itoa (sint (port_Host port)) @ '':'' else '''')
     @ itoa (sint (port_Container port)) @ [dquote]
     @ (if port_Protocol port \<noteq> '''' then '' # '' @ port_Protocol port else '''')
     @ ''\<newline>''"

definition volumeLine :: "VolumeConfig \<Rightarrow> string" where
  "volumeLine volume =
     ''      - '' @ vol_Source volume @ '':'' @ vol_Target volume
     @ (if vol_ReadOnly volume then '':ro'' else '''')
     @ ''\<newline>''"

definition environmentLine :: "string \<times> string \<Rightarrow> string" where
  "environmentLine kv = ''      '' @ fst kv @ '': '' @ snd kv @ ''\<newline>''"

definition dependsLine :: "string \<Rightarrow> string" where
  "dependsLine dep = ''      - '' @ dep @ ''\<newline>''"

definition serviceBlock :: "range_order \<Rightarrow> nat \<Rightarrow> ServiceConfig \<Rightarrow> string" where
  "serviceBlock ro i service =
     ''  '' @ svc_Name service @ '':\<newline>''
     @ (if svc_Image service \<noteq> ''''
        then ''    image: '' @ svc_Image service @ ''\<newline>'' else '''')
     @ (if length (svc_Ports service) > 0
        then ''    ports:\<newline>'' @ concat (map portLine (svc_Ports service)) else '''')
     @ (if length (svc_Volumes service) > 0
        then ''    volumes:\<newline>'' @ concat (map volumeLine (svc_Volumes service)) else '''')
     @ (if length (svc_Environment service) > 0
        then ''    environment:\<newline>''
             @ concat (map environmentLine (ro (ComposeEnvironment i) (svc_Environment service)))
        else '''')
     @ (if length (svc_DependsOn service) > 0
        then ''    depends_on:\<newline>'' @ concat (map dependsLine (svc_DependsOn service))
        else '''')
     @ ''\<newline>''"

fun composeServices :: "range_order \<Rightarrow> nat \<Rightarrow> ServiceConfig list \<Rightarrow> string" where
  "composeServices ro i [] = ''''"
| "composeServices ro i (service # rest) =
     (if \<not> svc_Enabled service then composeServices ro (Suc i) rest
      else serviceBlock ro i service @ composeServices ro (Suc i) rest)"

text \<open>The loop that sets \<^verbatim>\<open>hasVolumes\<close>, with its \<^verbatim>\<open>break\<close>.\<close>

fun hasVolumes :: "ServiceConfig list \<Rightarrow> bool" where
  "hasVolumes [] = False"
| "hasVolumes (service # rest) =
     (if length (svc_Volumes service) > 0 then True else hasVolumes rest)"

definition namedVolumeLine :: "VolumeConfig \<Rightarrow> string" where
  "namedVolumeLine volume =
     (if vol_Type volume = ''volume'' then ''  '' @ vol_Source volume @ '':\<newline>'' else '''')"

definition namedVolumeLines :: "ServiceConfig list \<Rightarrow> string" where
  "namedVolumeLines services =
     concat (map (\<lambda>service. concat (map namedVolumeLine (svc_Volumes service))) services)"

definition volumesSection :: "ProjectConfig \<Rightarrow> string" where
  "volumesSection config =
     (if hasVolumes (cfg_Services config)
      then ''volumes:\<newline>'' @ namedVolumeLines (cfg_Services config)
      else '''')"

definition generateComposeYAML :: "range_order \<Rightarrow> ProjectConfig \<Rightarrow> error + string" where
  "generateComposeYAML ro config =
     Inr (''services:\<newline>''
          @ composeServices ro 0 (cfg_Services config)
          @ volumesSection config)"

text \<open>The test on a key of a service's environment in \<open>generateEnvFile\<close>.\<close>

definition externalKey :: "string \<Rightarrow> bool" where
  "externalKey key =
     (Contains (ToUpper key) ''PASSWORD'' \<or> Contains (ToUpper key) ''SECRET''
      \<or> Contains (ToUpper key) ''KEY'' \<or> Contains (ToUpper key) ''TOKEN'')"

definition variableLine :: "string \<times> string \<Rightarrow> string" where
  "variableLine kv = fst kv @ ''='' @ snd kv"

definition serviceVariableLine :: "ServiceConfig \<Rightarrow> string \<times> string \<Rightarrow> string" where
  "serviceVariableLine service kv =
     ToUpper (svc_Name service) @ ''_'' @ fst kv @ ''='' @ snd kv"

fun envVarsServices :: "range_order \<Rightarrow> nat \<Rightarrow> ServiceConfig list \<Rightarrow> string list" where
  "envVarsServices ro i [] = []"
| "envVarsServices ro i (service # rest) =
     map (serviceVariableLine service)
       (filter (\<lambda>kv. externalKey (fst kv)) (ro (EnvFileEnvironment i) (svc_Environment service)))
     @ envVarsServices ro (Suc i) rest"

text \<open>The slice \<^verbatim>\<open>envVars\<close> at the end of the two loops of \<open>generateEnvFile\<close>.\<close>

definition envVars :: "range_order \<Rightarrow> ProjectConfig \<Rightarrow> string list" where
  "envVars ro config =
     map variableLine (ro EnvFileVariables (cfg_Variables config))
     @ envVarsServices ro 0 (cfg_Services config)"

definition generateEnvFile :: "range_order \<Rightarrow> ProjectConfig \<Rightarrow> string" where
  "generateEnvFile ro config =
     (if length (envVars ro config) = 0 then ''''
      else Join (envVars ro config) ''\<newline>'' @ ''\<newline>'')"

definition docker_Generate :: "range_order \<Rightarrow> ProjectConfig \<Rightarrow> error + GeneratedFile list" where
  "docker_Generate ro config =
     (case docker_Validate config of
        Some err \<Rightarrow> Inl err
      | None \<Rightarrow>
          (case generateComposeYAML ro config of
             Inl err \<Rightarrow> Inl (Wrapped ''failed to generate compose YAML'' err)
           | Inr yamlContent \<Rightarrow>
               (let envContent = generateEnvFile ro config;
                    files = [\<lparr>file_Path = ''docker-compose.yml'', file_Content = yamlContent,
                              file_Type = TargetDocker, file_Encoding = ''utf-8''\<rparr>]
                in if envContent \<noteq> ''''
                   then Inr (files @ [\<lparr>file_Path = ''.env'', file_Content = envContent,
                                       file_Type = TargetDocker, file_Encoding = ''utf-8''\<rparr>])
                   else Inr files)))"

section \<open>The Ansible generator (package ansible)\<close>

text \<open>
  Of an \<^verbatim>\<open>AnsibleTask\<close> the generator sets and prints four fields. The inventory is the
  struct under its key \<^verbatim>\<open>all\<close>: the child groups, each with its hosts, and the variables.
\<close>

record AnsibleTask =
  task_Name :: string
  task_Module :: string
  task_Package :: string
  task_State :: string

record InventoryGroup =
  Hosts :: "(go_value gomap) gomap"

record AnsibleInventory =
  inv_Children :: "InventoryGroup gomap"
  inv_Vars :: "go_value gomap"

fun ansible_validateServices ::
  "nat \<Rightarrow> ServiceConfig list \<Rightarrow> ValidationErrors \<Rightarrow> ValidationErrors" where
  "ansible_validateServices i [] errors = errors"
| "ansible_validateServices i (service # rest) errors =
     (let errors1 =
            (if svc_Name service = ''''
             then Add errors (''services['' @ itoa (int i) @ ''].name'')
                    ''service name is required'' (VString (svc_Name service))
             else errors);
          errors2 =
            (if svc_Type service = ''''
             then Add errors1 (''services['' @ itoa (int i) @ ''].type'')
                    ''service type is required'' (VString (svc_Type service))
             else errors1)
      in ansible_validateServices (Suc i) rest errors2)"

definition ansible_validationErrors :: "ProjectConfig \<Rightarrow> ValidationErrors" where
  "ansible_validationErrors config =
     (let errors0 = [];
          errors1 =
            (if cfg_Name config = ''''
             then Add errors0 ''name'' ''project name is required'' (VString (cfg_Name config))
             else errors0);
          errors2 =
            (if length (cfg_Services config) = 0
             then Add errors1 ''services'' ''at least one service is required''
                    (VInt (int (length (cfg_Services config))))
             else errors1)
      in ansible_validateServices 0 (cfg_Services config) errors2)"

definition ansible_Validate :: "ProjectConfig \<Rightarrow> error option" where
  "ansible_Validate config =
     (let errors = ansible_validationErrors config
      in if HasErrors errors then Some (ValidationFailed errors) else None)"

definition extractPorts :: "PortConfig list \<Rightarrow> string list" where
  "extractPorts ports =
     map (\<lambda>port. if 0 < sint (port_Host port)
                  then itoa (sint (port_Host port)) @ '':'' @ itoa (sint (port_Container port))
                  else itoa (sint (port_Container port))) ports"

definition extractVolumes :: "VolumeConfig list \<Rightarrow> string list" where
  "extractVolumes volumes = map (\<lambda>volume. vol_Source volume @ '':'' @ vol_Target volume) volumes"

definition serviceVars :: "ServiceConfig \<Rightarrow> go_value gomap \<Rightarrow> go_value gomap" where
  "serviceVars service vars =
     (let prefix = ReplaceAll_byte (svc_Name service) (CHR ''-'') (CHR ''_'');
          vars1 = map_assign vars (prefix @ ''_image'') (VString (svc_Image service));
          vars2 = map_assign vars1 (prefix @ ''_ports'') (VStrings (extractPorts (svc_Ports service)));
          vars3 = map_assign vars2 (prefix @ ''_volumes'')
                    (VStrings (extractVolumes (svc_Volumes service)))
      in map_assign vars3 (prefix @ ''_enabled'') (VBool (svc_Enabled service)))"

definition copyVariables :: "(string \<times> string) list \<Rightarrow> go_value gomap \<Rightarrow> go_value gomap" where
  "copyVariables visited vars = fold (\<lambda>kv vars. map_assign vars (fst kv) (VString (snd kv))) visited vars"

definition generateVars :: "range_order \<Rightarrow> ProjectConfig \<Rightarrow> go_value gomap" where
  "generateVars ro config =
     fold serviceVars (cfg_Services config)
       (copyVariables (ro VarsVariables (cfg_Variables config)) [])"

definition setupTasks :: "AnsibleTask list" where
  "setupTasks =
     [\<lparr>task_Name = ''Update package cache'', task_Module = ''apt'',
        task_Package = ''apt'', task_State = ''present''\<rparr>,
      \<lparr>task_Name = ''Install Docker'', task_Module = ''package'',
        task_Package = ''docker.io'', task_State = ''present''\<rparr>,
      \<lparr>task_Name = ''Start and enable Docker service'', task_Module = ''systemd'',
        task_Package = ''docker'', task_State = ''started''\<rparr>]"

definition volumeTasks :: "VolumeConfig list \<Rightarrow> AnsibleTask list" where
  "volumeTasks volumes =
     map (\<lambda>volume. \<lparr>task_Name = ''Create directory for '' @ vol_Source volume @ '' volume'',
                      task_Module = ''file'', task_Package = vol_Source volume,
                      task_State = ''directory''\<rparr>)
       (filter (\<lambda>volume. vol_Source volume \<noteq> '''' \<and> \<not> HasPrefix (vol_Source volume) ''/'')
          volumes)"

fun serviceTasks :: "ServiceConfig list \<Rightarrow> AnsibleTask list" where
  "serviceTasks [] = []"
| "serviceTasks (service # rest) =
     (if \<not> svc_Enabled service then serviceTasks rest
      else volumeTasks (svc_Volumes service)
           @ (if svc_Image service \<noteq> ''''
              then [\<lparr>task_Name = ''Pull '' @ svc_Name service @ '' Docker image'',
                      task_Module = ''docker_image'', task_Package = svc_Image service,
                      task_State = ''present''\<rparr>]
              else [])
           @ serviceTasks rest)"

definition deployTasks :: "AnsibleTask list" where
  "deployTasks =
     [\<lparr>task_Name = ''Create docker-compose.yml'', task_Module = ''file'',
        task_Package = ''/opt/{{ project_name }}/docker-compose.yml'',
        task_State = ''directory''\<rparr>,
      \<lparr>task_Name = ''Deploy services with Docker Compose'', task_Module = ''docker_compose'',
        task_Package = ''/opt/{{ project_name }}'', task_State = ''present''\<rparr>]"

definition generateTasks :: "ProjectConfig \<Rightarrow> AnsibleTask list" where
  "generateTasks config = setupTasks @ serviceTasks (cfg_Services config) @ deployTasks"

definition varLine :: "string \<times> go_value \<Rightarrow> string" where
  "varLine kv = ''    '' @ fst kv @ '': '' @ fmt_v (snd kv) @ ''\<newline>''"

definition taskLines :: "AnsibleTask \<Rightarrow> string" where
  "taskLines task =
     ''    - name: '' @ task_Name task @ ''\<newline>''
     @ (if task_Module task \<noteq> ''''
        then ''      '' @ task_Module task @ '':\<newline>''
             @ (if task_Package task \<noteq> ''''
                then ''        name: '' @ task_Package task @ ''\<newline>'' else '''')
             @ (if task_State task \<noteq> ''''
                then ''        state: '' @ task_State task @ ''\<newline>'' else '''')
        else '''')"

text \<open>
  The map \<^verbatim>\<open>vars\<close> of \<open>generatePlaybook\<close> holds values of several types, so the order in
  which its \<^verbatim>\<open>range\<close> visits that map is an argument of its own.
\<close>

type_synonym vars_order = "go_value gomap \<Rightarrow> (string \<times> go_value) list"


definition generatePlaybook :: "range_order \<Rightarrow> vars_order \<Rightarrow> ProjectConfig \<Rightarrow> error + string" where
  "generatePlaybook ro rv config =
     (let vars = generateVars ro config;
          tasks = generateTasks config
      in Inr (''---\<newline>'' @ ''- hosts: all\<newline>'' @ ''  become: true\<newline>''
              @ ''  name: Deploy '' @ cfg_Name config @ ''\<newline>''
              @ (if length vars > 0 then ''  vars:\<newline>'' @ concat (map varLine (rv vars)) else '''')
              @ ''  tasks:\<newline>''
              @ concat (map taskLines tasks)))"

fun hasServiceType :: "ServiceConfig list \<Rightarrow> string list \<Rightarrow> bool" where
  "hasServiceType [] types = False"
| "hasServiceType (service # rest) types =
     (if list_ex (\<lambda>t. Contains (ToLower (svc_Type service)) (ToLower t)) types then True
      else hasServiceType rest types)"

definition squote :: char where
  "squote = CHR 0x27"

definition defaultExpr :: "string \<Rightarrow> string \<Rightarrow> string" where
  "defaultExpr var dflt = ''{{ '' @ var @ '' | default('' @ [squote] @ dflt @ [squote] @ '') }}''"

definition webserversGroup :: InventoryGroup where
  "webserversGroup =
     \<lparr>Hosts = [(''webserver1'',
                 [(''ansible_host'', VString (defaultExpr ''webserver_ip'' ''127.0.0.1'')),
                  (''ansible_user'', VString (defaultExpr ''ansible_user'' ''ubuntu''))])]\<rparr>"

definition databasesGroup :: InventoryGroup where
  "databasesGroup =
     \<lparr>Hosts = [(''database1'',
                 [(''ansible_host'', VString (defaultExpr ''database_ip'' ''127.0.0.1'')),
                  (''ansible_user'', VString (defaultExpr ''ansible_user'' ''ubuntu''))])]\<rparr>"

text \<open>The value that \<open>generateInventory\<close> has built when it calls \<^verbatim>\<open>yaml.Marshal\<close>.\<close>

definition inventory :: "range_order \<Rightarrow> ProjectConfig \<Rightarrow> AnsibleInventory" where
  "inventory ro config =
     (let children0 = [];
          children1 =
            (if hasServiceType (cfg_Services config) [''web'', ''frontend'', ''nginx'']
             then map_assign children0 ''webservers'' webserversGroup else children0);
          children2 =
            (if hasServiceType (cfg_Services config) [''database'', ''postgres'', ''mysql'', ''mongo'']
             then map_assign children1 ''databases'' databasesGroup else children1);
          vars0 = [(''project_name'', VString (cfg_Name config)),
                   (''environment'', VString (cfg_Environment config))]
      in \<lparr>inv_Children = children2,
          inv_Vars = copyVariables (ro InventoryVariables (cfg_Variables config)) vars0\<rparr>)"

text \<open>
  \<^verbatim>\<open>yaml.Marshal\<close> belongs to a library outside the repository: it is the argument
  \<open>Marshal\<close>, a function from the value to its text or an error.
\<close>

type_synonym marshal = "AnsibleInventory \<Rightarrow> error + string"

definition generateInventory :: "marshal \<Rightarrow> range_order \<Rightarrow> ProjectConfig \<Rightarrow> error + string" where
  "generateInventory Marshal ro config =
     (case Marshal (inventory ro config) of
        Inl err \<Rightarrow> Inl err
      | Inr yamlData \<Rightarrow> Inr yamlData)"

definition generateRequirements :: "ProjectConfig \<Rightarrow> string" where
  "generateRequirements config = ''''"

definition ansible_Generate ::
  "marshal \<Rightarrow> range_order \<Rightarrow> vars_order \<Rightarrow> ProjectConfig \<Rightarrow> error + GeneratedFile list" where
  "ansible_Generate Marshal ro rv config =
     (case ansible_Validate config of
        Some err \<Rightarrow> Inl err
      | None \<Rightarrow>
          (case generatePlaybook ro rv config of
             Inl err \<Rightarrow> Inl (Wrapped ''failed to generate playbook'' err)
           | Inr playbookContent \<Rightarrow>
               (case generateInventory Marshal ro config of
                  Inl err \<Rightarrow> Inl (Wrapped ''failed to generate inventory'' err)
                | Inr inventoryContent \<Rightarrow>
                    (let files = [\<lparr>file_Path = ''playbook.yml'', file_Content = playbookContent,
                                   file_Type = TargetAnsible, file_Encoding = ''utf-8''\<rparr>,
                                  \<lparr>file_Path = ''inventory.yml'', file_Content = inventoryContent,
                                   file_Type = TargetAnsible, file_Encoding = ''utf-8''\<rparr>];
                         requirementsContent = generateRequirements config
                     in if requirementsContent \<noteq> ''''
                        then Inr (files @ [\<lparr>file_Path = ''requirements.yml'',
                                            file_Content = requirementsContent,
                                            file_Type = TargetAnsible, file_Encoding = ''utf-8''\<rparr>])
                        else Inr files))))"

section \<open>Presets (internal/templates and internal/presets/manager.go)\<close>

text \<open>
  The embedded presets are read from files that are not part of the sources: the two maps
  of the template manager are given.
\<close>

record TemplateManager =
  embedded :: "Preset gomap"
  custom :: "Preset gomap"

record Manager =
  templateManager :: TemplateManager

definition GetPreset :: "TemplateManager \<Rightarrow> string \<Rightarrow> error + Preset" where
  "GetPreset tm id' =
     (case map_of (embedded tm) id' of
        Some preset \<Rightarrow> Inr preset
      | None \<Rightarrow>
          (case map_of (custom tm) id' of
             Some preset \<Rightarrow> Inr preset
           | None \<Rightarrow> Inl (Errorf (''preset '' @ [squote] @ id' @ [squote] @ '' not found''))))"

definition tcpPort :: "64 word \<Rightarrow> PortConfig" where
  "tcpPort c = \<lparr>port_Host = 0, port_Container = c, port_Protocol = ''tcp''\<rparr>"

definition namedVolume :: "string \<Rightarrow> string \<Rightarrow> VolumeConfig" where
  "namedVolume source target =
     \<lparr>vol_Source = source, vol_Target = target, vol_ReadOnly = False, vol_Type = ''volume''\<rparr>"

definition servicesPreset :: "PresetService list \<Rightarrow> Preset" where
  "servicesPreset services =
     \<lparr>preset_ID = '''', preset_Name = '''', preset_Description = '''', preset_Category = '''',
      preset_Services = services, preset_Variables = [], preset_Tags = []\<rparr>"

definition webAppServices :: "PresetService list" where
  "webAppServices =
     [\<lparr>ps_Name = ''frontend'', ps_Type = ''frontend'',
        ps_Description = ''Frontend web application'', ps_Image = ''nginx:alpine'',
        ps_Ports = [tcpPort 80], ps_Volumes = [],
        ps_Environment = [(''REACT_APP_API_URL'', ''http://api:8080'')],
        ps_Optional = False\<rparr>,
      \<lparr>ps_Name = ''api'', ps_Type = ''api'',
        ps_Description = ''Backend API server'', ps_Image = ''node:18-alpine'',
        ps_Ports = [tcpPort 8080], ps_Volumes = [],
        ps_Environment = [(''NODE_ENV'', ''development''), (''DB_HOST'', ''database'')],
        ps_Optional = False\<rparr>,
      \<lparr>ps_Name = ''database'', ps_Type = ''database'',
        ps_Description = ''PostgreSQL database'', ps_Image = ''postgres:15'',
        ps_Ports = [tcpPort 5432],
        ps_Volumes = [namedVolume ''db_data'' ''/var/lib/postgresql/data''],
        ps_Environment = [(''POSTGRES_DB'', ''webapp''), (''POSTGRES_USER'', ''admin'')],
        ps_Optional = False\<rparr>]"

definition microserviceServices :: "PresetService list" where
  "microserviceServices =
     [\<lparr>ps_Name = ''api-gateway'', ps_Type = ''gateway'',
        ps_Description = ''API Gateway'', ps_Image = ''nginx:alpine'',
        ps_Ports = [tcpPort 80], ps_Volumes = [],
        ps_Environment = [(''UPSTREAM_SERVICE1'', ''service1:8081'')],
        ps_Optional = False\<rparr>,
      \<lparr>ps_Name = ''service1'', ps_Type = ''microservice'',
        ps_Description = ''First microservice'', ps_Image = ''node:18-alpine'',
        ps_Ports = [tcpPort 8081], ps_Volumes = [],
        ps_Environment = [(''SERVICE_NAME'', ''service1'')],
        ps_Optional = False\<rparr>,
      \<lparr>ps_Name = ''redis'', ps_Type = ''cache'',
        ps_Description = ''Redis cache'', ps_Image = ''redis:7-alpine'',
        ps_Ports = [tcpPort 6379],
        ps_Volumes = [namedVolume ''redis_data'' ''/data''],
        ps_Environment = [],
        ps_Optional = False\<rparr>]"

definition databaseServices :: "PresetService list" where
  "databaseServices =
     [\<lparr>ps_Name = ''postgres'', ps_Type = ''database'',
        ps_Description = ''PostgreSQL database'', ps_Image = ''postgres:15'',
        ps_Ports = [tcpPort 5432],
        ps_Volumes = [namedVolume ''postgres_data'' ''/var/lib/postgresql/data''],
        ps_Environment = [(''POSTGRES_DB'', ''myapp''), (''POSTGRES_USER'', ''postgres'')],
        ps_Optional = False\<rparr>,
      \<lparr>ps_Name = ''mysql'', ps_Type = ''database'',
        ps_Description = ''MySQL database'', ps_Image = ''mysql:8.0'',
        ps_Ports = [tcpPort 3306],
        ps_Volumes = [namedVolume ''mysql_data'' ''/var/lib/mysql''],
        ps_Environment = [(''MYSQL_DATABASE'', ''myapp''), (''MYSQL_USER'', ''mysql'')],
        ps_Optional = True\<rparr>]"

definition loadPresetTemplateData :: "string \<Rightarrow> error + Preset" where
  "loadPresetTemplateData presetID =
     (if presetID = ''web-app'' then Inr (servicesPreset webAppServices)
      else if presetID = ''microservice'' then Inr (servicesPreset microserviceServices)
      else if presetID = ''database'' then Inr (servicesPreset databaseServices)
      else Inr (servicesPreset []))"

definition getProjectTypeFromPreset :: "string \<Rightarrow> ProjectType" where
  "getProjectTypeFromPreset presetID =
     (if presetID = ''web-app'' then ProjectTypeWebApp
      else if presetID = ''microservice'' then ProjectTypeMicroservice
      else if presetID = ''database'' then ProjectTypeDatabase
      else if presetID = ''ml'' then ProjectTypeML
      else if presetID = ''infrastructure'' then ProjectTypeInfrastructure
      else ProjectTypeWebApp)"

definition copyMap :: "(string \<times> string) list \<Rightarrow> string gomap \<Rightarrow> string gomap" where
  "copyMap visited m = fold (\<lambda>kv m. map_assign m (fst kv) (snd kv)) visited m"

fun convertServices :: "range_order \<Rightarrow> nat \<Rightarrow> PresetService list \<Rightarrow> ServiceConfig list" where
  "convertServices ro i [] = []"
| "convertServices ro i (presetService # rest) =
     \<lparr>svc_Name = ps_Name presetService,
      svc_Type = ps_Type presetService,
      svc_Image = ps_Image presetService,
      svc_Ports = ps_Ports presetService,
      svc_Volumes = ps_Volumes presetService,
      svc_Environment =
        copyMap (ro (PresetEnvironment i) (ps_Environment presetService)) [],
      svc_DependsOn = [],
      svc_Enabled = (\<not> ps_Optional presetService)\<rparr>
     # convertServices ro (Suc i) rest"

text \<open>
  \<^verbatim>\<open>time.Now()\<close> reads the clock of the machine. A clock is the sequence of the readings
  that successive calls return; a function that reads it takes the clock and the number of
  calls made so far, and returns the number of calls made when it is done.
\<close>

type_synonym clock = "nat \<Rightarrow> Time"

definition CreateProjectFromPreset ::
  "Manager \<Rightarrow> range_order \<Rightarrow> clock \<Rightarrow> nat \<Rightarrow> string \<Rightarrow> string \<Rightarrow> string
     \<Rightarrow> (error + ProjectConfig) \<times> nat" where
  "CreateProjectFromPreset m ro now n presetID projectName environment =
     (case GetPreset (templateManager m) presetID of
        Inl err \<Rightarrow> (Inl err, n)
      | Inr preset \<Rightarrow>
          (let config = \<lparr>cfg_Name = projectName,
                         cfg_Type = getProjectTypeFromPreset presetID,
                         cfg_Description = preset_Description preset,
                         cfg_Version = ''1.0.0'',
                         cfg_Environment = environment,
                         cfg_Services = [],
                         cfg_Variables = [],
                         cfg_CreatedAt = now n,
                         cfg_UpdatedAt = now (Suc n)\<rparr>
           in case loadPresetTemplateData presetID of
                Inl err \<Rightarrow> (Inl (Wrapped ''failed to load preset template data'' err), n + 2)
              | Inr presetWithServices \<Rightarrow>
                  (Inr (config\<lparr>cfg_Services :=
                                 cfg_Services config
                                 @ convertServices ro 0 (preset_Services presetWithServices),
                               cfg_Variables :=
                                 copyMap (ro PresetVariables (preset_Variables preset))
                                   (cfg_Variables config)\<rparr>),
                   n + 2)))"

fun project_validateServices ::
  "nat \<Rightarrow> ServiceConfig list \<Rightarrow> ValidationErrors \<Rightarrow> ValidationErrors" where
  "project_validateServices i [] errors = errors"
| "project_validateServices i (service # rest) errors =
     (let errors1 =
            (if svc_Name service = ''''
             then Add errors (''services['' @ itoa (int i) @ ''].name'')
                    ''service name is required'' (VString (svc_Name service))
             else errors);
          errors2 =
            (if svc_Type service = ''''
             then Add errors1 (''services['' @ itoa (int i) @ ''].type'')
                    ''service type is required'' (VString (svc_Type service))
             else errors1)
      in project_validateServices (Suc i) rest errors2)"

text \<open>Reading \<^verbatim>\<open>serviceNames[name]\<close> in a \<^verbatim>\<open>map[string]bool\<close>: \<^verbatim>\<open>false\<close> for a missing key.\<close>

definition map_index_bool :: "bool gomap \<Rightarrow> string \<Rightarrow> bool" where
  "map_index_bool m k = (case map_of m k of Some b \<Rightarrow> b | None \<Rightarrow> False)"

fun checkDuplicates ::
  "bool gomap \<Rightarrow> ServiceConfig list \<Rightarrow> ValidationErrors \<Rightarrow> ValidationErrors" where
  "checkDuplicates serviceNames [] errors = errors"
| "checkDuplicates serviceNames (service # rest) errors =
     (let errors1 =
            (if map_index_bool serviceNames (svc_Name service)
             then Add errors ''services'' (''duplicate service name: '' @ svc_Name service)
                    (VString (svc_Name service))
             else errors)
      in checkDuplicates (map_assign serviceNames (svc_Name service) True) rest errors1)"

definition project_validationErrors :: "ProjectConfig \<Rightarrow> ValidationErrors" where
  "project_validationErrors config =
     (let errors0 = [];
          errors1 =
            (if cfg_Name config = ''''
             then Add errors0 ''name'' ''project name is required'' (VString (cfg_Name config))
             else errors0);
          errors2 =
            (if cfg_Type config = ''''
             then Add errors1 ''type'' ''project type is required'' (VString (cfg_Type config))
             else errors1);
          errors3 =
            (if length (cfg_Services config) = 0
             then Add errors2 ''services'' ''at least one service is required''
                    (VInt (int (length (cfg_Services config))))
             else errors2);
          errors4 = project_validateServices 0 (cfg_Services config) errors3
      in checkDuplicates [] (cfg_Services config) errors4)"

definition ValidateProject :: "ProjectConfig \<Rightarrow> error option" where
  "ValidateProject config =
     (let errors = project_validationErrors config
      in if HasErrors errors then Some (ValidationFailed errors) else None)"

section \<open>Runtime choices and configurations used as examples\<close>

text \<open>Two admissible orders of \<^verbatim>\<open>range\<close>: the entries as listed, and reversed.\<close>

definition range_listed :: range_order where
  "range_listed site m = m"


definition vars_listed :: vars_order where
  "vars_listed m = m"


definition failingMarshal :: marshal where
  "failingMarshal v = Inl (Errorf ''yaml: cannot marshal'')"

definition emptyProject :: ProjectConfig where
  "emptyProject =
     \<lparr>cfg_Name = '''', cfg_Type = ''web-app'', cfg_Description = '''', cfg_Version = ''1.0.0'',
      cfg_Environment = ''development'', cfg_Services = [], cfg_Variables = [],
      cfg_CreatedAt = 0, cfg_UpdatedAt = 0\<rparr>"

definition emptyProjectErrors :: ValidationErrors where
  "emptyProjectErrors =
     [\<lparr>ve_Field = ''name'', ve_Message = ''project name is required'', ve_Value = VString ''''\<rparr>,
      \<lparr>ve_Field = ''services'', ve_Message = ''at least one service is required'',
        ve_Value = VInt 0\<rparr>]"

definition shopProject :: ProjectConfig where
  "shopProject =
     \<lparr>cfg_Name = ''shop'', cfg_Type = ''web-app'', cfg_Description = '''', cfg_Version = ''1.0.0'',
      cfg_Environment = ''development'',
      cfg_Services =
        [\<lparr>svc_Name = ''web'', svc_Type = ''frontend'', svc_Image = ''nginx:alpine'',
           svc_Ports = [\<lparr>port_Host = 8080, port_Container = 80, port_Protocol = ''tcp''\<rparr>],
           svc_Volumes = [], svc_Environment = [], svc_DependsOn = [''db''],
           svc_Enabled = True\<rparr>,
         \<lparr>svc_Name = ''worker'', svc_Type = ''worker'', svc_Image = ''worker:1'',
           svc_Ports = [], svc_Volumes = [],
           svc_Environment = [(''QUEUE'', ''jobs''), (''API_TOKEN'', ''t0'')], svc_DependsOn = [],
           svc_Enabled = False\<rparr>,
         \<lparr>svc_Name = ''db'', svc_Type = ''database'', svc_Image = ''postgres:15'',
           svc_Ports = [],
           svc_Volumes = [\<lparr>vol_Source = ''db_data'', vol_Target = ''/data'',
                            vol_ReadOnly = False, vol_Type = ''volume''\<rparr>],
           svc_Environment = [(''POSTGRES_DB'', ''shop''), (''POSTGRES_PASSWORD'', ''s3cret'')],
           svc_DependsOn = [], svc_Enabled = True\<rparr>],
      cfg_Variables = [(''TAG'', ''v1'')],
      cfg_CreatedAt = 0, cfg_UpdatedAt = 0\<rparr>"

definition shopCompose :: string where
  "shopCompose =
     ''services:\<newline>''
     @ ''  web:\<newline>''
     @ ''    image: nginx:alpine\<newline>''
     @ ''    ports:\<newline>''
     @ ''      - '' @ [dquote] @ ''8080:80'' @ [dquote] @ '' # tcp\<newline>''
     @ ''    depends_on:\<newline>''
     @ ''      - db\<newline>''
     @ ''\<newline>''
     @ ''  db:\<newline>''
     @ ''    image: postgres:15\<newline>''
     @ ''    volumes:\<newline>''
     @ ''      - db_data:/data\<newline>''
     @ ''    environment:\<newline>''
     @ ''      POSTGRES_DB: shop\<newline>''
     @ ''      POSTGRES_PASSWORD: s3cret\<newline>''
     @ ''\<newline>''
     @ ''volumes:\<newline>''
     @ ''  db_data:\<newline>''"

definition bindProject :: ProjectConfig where
  "bindProject =
     \<lparr>cfg_Name = ''app'', cfg_Type = ''web-app'', cfg_Description = '''', cfg_Version = ''1.0.0'',
      cfg_Environment = ''development'',
      cfg_Services =
        [\<lparr>svc_Name = ''app'', svc_Type = ''api'', svc_Image = ''app:1'',
           svc_Ports = [],
           svc_Volumes = [\<lparr>vol_Source = ''./data'', vol_Target = ''/data'',
                            vol_ReadOnly = False, vol_Type = ''bind''\<rparr>],
           svc_Environment = [(''API_KEY'', ''k1'')], svc_DependsOn = [],
           svc_Enabled = True\<rparr>],
      cfg_Variables = [(''TAG'', ''v1'')],
      cfg_CreatedAt = 0, cfg_UpdatedAt = 0\<rparr>"

definition dupProject :: ProjectConfig where
  "dupProject =
     \<lparr>cfg_Name = ''data'', cfg_Type = ''database'', cfg_Description = '''', cfg_Version = ''1.0.0'',
      cfg_Environment = ''development'',
      cfg_Services =
        [\<lparr>svc_Name = ''db'', svc_Type = ''database'', svc_Image = ''postgres:15'',
           svc_Ports = [], svc_Volumes = [], svc_Environment = [], svc_DependsOn = [],
           svc_Enabled = True\<rparr>,
         \<lparr>svc_Name = ''db'', svc_Type = ''database'', svc_Image = ''mysql:8.0'',
           svc_Ports = [], svc_Volumes = [], svc_Environment = [], svc_DependsOn = [],
           svc_Enabled = True\<rparr>],
      cfg_Variables = [],
      cfg_CreatedAt = 0, cfg_UpdatedAt = 0\<rparr>"

definition webAppPreset :: Preset where
  "webAppPreset =
     \<lparr>preset_ID = ''web-app'', preset_Name = ''Web app'',
      preset_Description = ''Basic web application with frontend, backend, and database'',
      preset_Category = ''Web Applications'',
      preset_Services = [], preset_Variables = [], preset_Tags = []\<rparr>"

definition webAppManager :: Manager where
  "webAppManager =
     \<lparr>templateManager = \<lparr>embedded = [(''web-app'', webAppPreset)], custom = []\<rparr>\<rparr>"

definition tickingClock :: clock where
  "tickingClock k = int k"

section \<open>Properties\<close>

subsection \<open>Validation\<close>

lemma validateServices_same:
  "docker_validateServices i services errors = ansible_validateServices i services errors"
  by (induction services arbitrary: i errors) (simp_all add: Let_def)



text \<open>
  C10. The Docker generator's \<open>Validate\<close> and the Ansible generator's \<open>Validate\<close> return
  the same outcome on every project configuration: both \<^verbatim>\<open>nil\<close>, or the same collection of
  validation errors, with the same fields, messages and values in the same order.
\<close>

theorem docker_ansible_Validate_equal:
  "docker_Validate config = ansible_Validate config"
  by (simp add: docker_Validate_def ansible_Validate_def docker_validationErrors_def
      ansible_validationErrors_def validateServices_same)

text \<open>
  C4. On a project configuration with an empty name and no service, \<open>Validate\<close> returns a
  collection of two validation errors: the first for the field \<^verbatim>\<open>name\<close>, the second for
  the field \<^verbatim>\<open>services\<close>. The pass does not stop at the first violation.
\<close>

theorem Validate_accumulates:
  assumes "cfg_Name config = ''''" and "cfg_Services config = []"
  shows "docker_Validate config =
           Some (ValidationFailed
             [\<lparr>ve_Field = ''name'', ve_Message = ''project name is required'',
                ve_Value = VString ''''\<rparr>,
              \<lparr>ve_Field = ''services'', ve_Message = ''at least one service is required'',
                ve_Value = VInt 0\<rparr>])"
  using assms
  by (simp add: docker_Validate_def docker_validationErrors_def Add_def HasErrors_def)

theorem Validate_accumulates_witness:
  "cfg_Name emptyProject = '''' \<and> cfg_Services emptyProject = [] \<and>
   docker_Validate emptyProject = Some (ValidationFailed emptyProjectErrors)"
  using Validate_accumulates [of emptyProject]
  by (simp add: emptyProject_def emptyProjectErrors_def)

text \<open>
  C3. When \<open>Validate\<close> returns an error on a project configuration, \<open>Generate\<close> returns
  that same error and no list of files. This holds for the Docker generator and for the
  Ansible generator, whatever order the runtime picks for the maps and whatever
  \<^verbatim>\<open>yaml.Marshal\<close> would do.
\<close>

theorem Generate_propagates_validation_error:
  "(docker_Validate config = Some err \<longrightarrow> docker_Generate ro config = Inl err) \<and>
   (ansible_Validate config = Some err \<longrightarrow> ansible_Generate Marshal ro rv config = Inl err)"
  by (simp add: docker_Generate_def ansible_Generate_def)

theorem Generate_propagates_validation_error_witness:
  "docker_Validate emptyProject = Some (ValidationFailed emptyProjectErrors) \<and>
   docker_Generate range_listed emptyProject = Inl (ValidationFailed emptyProjectErrors) \<and>
   ansible_Validate emptyProject = Some (ValidationFailed emptyProjectErrors) \<and>
   ansible_Generate failingMarshal range_listed vars_listed emptyProject =
     Inl (ValidationFailed emptyProjectErrors)"
proof -
  have d: "docker_Validate emptyProject = Some (ValidationFailed emptyProjectErrors)"
    by (simp add: docker_Validate_def docker_validationErrors_def Add_def HasErrors_def
        emptyProject_def emptyProjectErrors_def)
  have a: "ansible_Validate emptyProject = Some (ValidationFailed emptyProjectErrors)"
    by (simp add: ansible_Validate_def ansible_validationErrors_def Add_def HasErrors_def
        emptyProject_def emptyProjectErrors_def)
  from d a
    Generate_propagates_validation_error
      [of emptyProject "ValidationFailed emptyProjectErrors" range_listed
          failingMarshal vars_listed]
  show ?thesis by simp
qed

subsection \<open>The compose document\<close>

lemma composeServices_blocks:
  "composeServices ro i services =
     concat (map (\<lambda>(j, service). serviceBlock ro j service)
       (filter (\<lambda>(j, service). svc_Enabled service) (enumerate i services)))"
  by (induction services arbitrary: i) simp_all

lemma enabled_enumerate:
  "map snd (filter (\<lambda>(j, service). svc_Enabled service) (enumerate i services)) =
     filter svc_Enabled services"
  by (induction services arbitrary: i) simp_all

lemma shop_valid: "docker_Validate shopProject = None"
  by (simp add: docker_Validate_def docker_validationErrors_def Add_def HasErrors_def
        shopProject_def)

lemma shop_document:
  "''services:\<newline>''
   @ concat (map (\<lambda>(i, service). serviceBlock range_listed i service)
       (filter (\<lambda>(i, service). svc_Enabled service) (enumerate 0 (cfg_Services shopProject))))
   @ volumesSection shopProject = shopCompose"
  by (simp add: shopProject_def shopCompose_def serviceBlock_def portLine_def volumeLine_def
      environmentLine_def dependsLine_def itoa_def digits.simps volumesSection_def
      namedVolumeLines_def namedVolumeLine_def range_listed_def)

text \<open>
  C2. The compose document is the line \<^verbatim>\<open>services:\<close>, then one block for each service
  of the list whose \<open>Enabled\<close> is true, in the order of the list, then the volumes
  section; a service whose \<open>Enabled\<close> is false contributes nothing. When the
  configuration is valid, this document is the content of the first file that \<open>Generate\<close>
  returns, \<^verbatim>\<open>docker-compose.yml\<close>.
\<close>

theorem compose_one_block_per_enabled_service:
  "(let blocks = filter (\<lambda>(i, service). svc_Enabled service) (enumerate 0 (cfg_Services config));
        document = ''services:\<newline>''
                   @ concat (map (\<lambda>(i, service). serviceBlock ro i service) blocks)
                   @ volumesSection config
    in generateComposeYAML ro config = Inr document \<and>
       map snd blocks = filter svc_Enabled (cfg_Services config) \<and>
       (docker_Validate config = None \<longrightarrow>
          (\<exists>rest. docker_Generate ro config =
             Inr (\<lparr>file_Path = ''docker-compose.yml'', file_Content = document,
                   file_Type = TargetDocker, file_Encoding = ''utf-8''\<rparr> # rest))))"
  by (simp add: Let_def generateComposeYAML_def composeServices_blocks enabled_enumerate
      docker_Generate_def)

theorem compose_one_block_per_enabled_service_witness:
  "docker_Validate shopProject = None \<and>
   map svc_Name (filter svc_Enabled (cfg_Services shopProject)) = [''web'', ''db''] \<and>
   (\<exists>rest. docker_Generate range_listed shopProject =
      Inr (\<lparr>file_Path = ''docker-compose.yml'', file_Content = shopCompose,
            file_Type = TargetDocker, file_Encoding = ''utf-8''\<rparr> # rest))"
proof -
  have names: "map svc_Name (filter svc_Enabled (cfg_Services shopProject)) = [''web'', ''db'']"
    by (simp add: shopProject_def)
  from compose_one_block_per_enabled_service [of shopProject range_listed] shop_valid
  show ?thesis
    unfolding Let_def shop_document using names by blast
qed

text \<open>
  The volumes section as the code writes it: the guard asks whether some service has a
  volume of any type, the entries are the volumes of type \<^verbatim>\<open>volume\<close>, one entry for each
  declaration.
\<close>

lemma hasVolumes_iff: "hasVolumes services = (\<exists>s\<in>set services. svc_Volumes s \<noteq> [])"
  by (induction services) auto

lemma namedVolumeLines_eq:
  "namedVolumeLines services =
     concat (map (\<lambda>v. ''  '' @ vol_Source v @ '':\<newline>'')
       (filter (\<lambda>v. vol_Type v = ''volume'') (concat (map svc_Volumes services))))"
proof -
  have one: "concat (map namedVolumeLine vs) =
      concat (map (\<lambda>v. ''  '' @ vol_Source v @ '':\<newline>'')
        (filter (\<lambda>v. vol_Type v = ''volume'') vs))" for vs
    by (induction vs) (simp_all add: namedVolumeLine_def)
  show ?thesis
    unfolding namedVolumeLines_def
    by (induction services) (simp_all add: one)
qed

lemma volumesSection_eq:
  "volumesSection config =
     (if \<exists>s\<in>set (cfg_Services config). svc_Volumes s \<noteq> []
      then ''volumes:\<newline>''
           @ concat (map (\<lambda>v. ''  '' @ vol_Source v @ '':\<newline>'')
               (filter (\<lambda>v. vol_Type v = ''volume'')
                  (concat (map svc_Volumes (cfg_Services config)))))
      else '''')"
  by (simp add: volumesSection_def hasVolumes_iff namedVolumeLines_eq)

text \<open>
  C1. The claim is that the section \<^verbatim>\<open>volumes:\<close> is written if and only if some service
  declares a volume of type \<^verbatim>\<open>volume\<close>. On a valid configuration whose only volume is a
  bind mount, no volume has that type, and the document ends with the line \<^verbatim>\<open>volumes:\<close>
  followed by no entry.
\<close>

theorem bind_mount_emits_empty_volumes_section:
  "docker_Validate bindProject = None \<and>
   filter (\<lambda>v. vol_Type v = ''volume'') (concat (map svc_Volumes (cfg_Services bindProject))) = [] \<and>
   volumesSection bindProject = ''volumes:\<newline>'' \<and>
   generateComposeYAML range_listed bindProject =
     Inr (''services:\<newline>''
          @ ''  app:\<newline>''
          @ ''    image: app:1\<newline>''
          @ ''    volumes:\<newline>''
          @ ''      - ./data:/data\<newline>''
          @ ''    environment:\<newline>''
          @ ''      API_KEY: k1\<newline>''
          @ ''\<newline>''
          @ ''volumes:\<newline>'')"
  by (simp add: docker_Validate_def docker_validationErrors_def Add_def HasErrors_def
      bindProject_def generateComposeYAML_def serviceBlock_def volumeLine_def
      environmentLine_def volumesSection_def namedVolumeLines_def namedVolumeLine_def
      range_listed_def)

subsection \<open>The environment file\<close>













subsection \<open>Whole-project validation\<close>

lemma map_of_map_assign: "map_of (map_assign m k v) = (map_of m)(k \<mapsto> v)"
  by (induction m) (auto simp: fun_eq_iff)

lemma map_index_bool_assign:
  "map_index_bool (map_assign m k True) n = (n = k \<or> map_index_bool m n)"
  by (simp add: map_index_bool_def map_of_map_assign)

lemma checkDuplicates_keeps:
  "e \<in> set errors \<Longrightarrow> e \<in> set (checkDuplicates serviceNames services errors)"
  by (induction services arbitrary: serviceNames errors) (simp_all add: Let_def Add_def)

lemma checkDuplicates_seen:
  assumes "map_index_bool serviceNames n" and "n \<in> svc_Name ` set services"
  shows "\<lparr>ve_Field = ''services'', ve_Message = ''duplicate service name: '' @ n,
           ve_Value = VString n\<rparr> \<in> set (checkDuplicates serviceNames services errors)"
  using assms
proof (induction services arbitrary: serviceNames errors)
  case Nil
  then show ?case by simp
next
  case (Cons service rest)
  show ?case
  proof (cases "svc_Name service = n")
    case True
    with Cons.prems(1) show ?thesis
      by (simp add: Let_def Add_def checkDuplicates_keeps)
  next
    case False
    with Cons.prems(2) have "n \<in> svc_Name ` set rest" by auto
    moreover from Cons.prems(1)
    have "map_index_bool (map_assign serviceNames (svc_Name service) True) n"
      by (simp add: map_index_bool_assign)
    ultimately show ?thesis
      using Cons.IH by (simp add: Let_def)
  qed
qed

lemma checkDuplicates_finds:
  assumes "i < j" and "j < length services" and "svc_Name (services ! i) = svc_Name (services ! j)"
  shows "\<lparr>ve_Field = ''services'',
           ve_Message = ''duplicate service name: '' @ svc_Name (services ! j),
           ve_Value = VString (svc_Name (services ! j))\<rparr>
         \<in> set (checkDuplicates serviceNames services errors)"
  using assms
proof (induction services arbitrary: serviceNames errors i j)
  case Nil
  then show ?case by simp
next
  case (Cons service rest)
  from Cons.prems(1) obtain j' where j: "j = Suc j'" by (cases j) auto
  with Cons.prems(2) have j'len: "j' < length rest" by simp
  show ?case
  proof (cases i)
    case 0
    with Cons.prems(3) j have same: "svc_Name (rest ! j') = svc_Name service" by simp
    from j'len have "svc_Name (rest ! j') \<in> svc_Name ` set rest" by simp
    moreover have "map_index_bool (map_assign serviceNames (svc_Name service) True)
        (svc_Name (rest ! j'))"
      by (simp add: map_index_bool_assign same)
    ultimately show ?thesis
      using checkDuplicates_seen j by (simp add: Let_def)
  next
    case (Suc i')
    with Cons.prems j have "i' < j'" and "svc_Name (rest ! i') = svc_Name (rest ! j')"
      by simp_all
    from Cons.IH [OF this(1) j'len this(2)] j show ?thesis
      by (simp add: Let_def)
  qed
qed

text \<open>
  C6. When two entries of the service list, at positions \<open>i < j\<close>, have the same name,
  \<open>ValidateProject\<close> returns a collection of validation errors that holds an entry for the
  field \<^verbatim>\<open>services\<close> whose message is \<^verbatim>\<open>duplicate service name: \<close> followed by that
  name, and whose value is the name.
\<close>

theorem ValidateProject_reports_duplicate:
  assumes "i < j" and "j < length (cfg_Services config)"
    and "svc_Name (cfg_Services config ! i) = svc_Name (cfg_Services config ! j)"
  shows "\<exists>errors. ValidateProject config = Some (ValidationFailed errors) \<and>
           \<lparr>ve_Field = ''services'',
             ve_Message = ''duplicate service name: '' @ svc_Name (cfg_Services config ! j),
             ve_Value = VString (svc_Name (cfg_Services config ! j))\<rparr> \<in> set errors"
proof -
  let ?e = "\<lparr>ve_Field = ''services'',
             ve_Message = ''duplicate service name: '' @ svc_Name (cfg_Services config ! j),
             ve_Value = VString (svc_Name (cfg_Services config ! j))\<rparr>"
  have "?e \<in> set (project_validationErrors config)"
    unfolding project_validationErrors_def Let_def
    by (rule checkDuplicates_finds [OF assms])
  moreover from this have "HasErrors (project_validationErrors config)"
    by (cases "project_validationErrors config") (simp_all add: HasErrors_def)
  ultimately show ?thesis
    by (simp add: ValidateProject_def)
qed

theorem ValidateProject_reports_duplicate_witness:
  "(0::nat) < 1 \<and> 1 < length (cfg_Services dupProject) \<and>
   svc_Name (cfg_Services dupProject ! 0) = svc_Name (cfg_Services dupProject ! 1) \<and>
   (\<exists>errors. ValidateProject dupProject = Some (ValidationFailed errors) \<and>
      \<lparr>ve_Field = ''services'', ve_Message = ''duplicate service name: db'',
        ve_Value = VString ''db''\<rparr> \<in> set errors)"
proof -
  have h: "(0::nat) < 1" "1 < length (cfg_Services dupProject)"
    "svc_Name (cfg_Services dupProject ! 0) = svc_Name (cfg_Services dupProject ! 1)"
    by (simp_all add: dupProject_def)
  have n: "svc_Name (cfg_Services dupProject ! 1) = ''db''"
    by (simp add: dupProject_def)
  from ValidateProject_reports_duplicate [OF h] h show ?thesis
    unfolding n by simp
qed

subsection \<open>The inventory\<close>





subsection \<open>The timestamps of a new project\<close>

lemma webApp_created:
  "\<not> isl (fst (CreateProjectFromPreset webAppManager range_listed tickingClock 0
       ''web-app'' ''blog'' ''development''))"
  by (simp add: CreateProjectFromPreset_def GetPreset_def webAppManager_def
      loadPresetTemplateData_def Let_def)

text \<open>
  C8, as stated: after a successful \<open>CreateProjectFromPreset\<close> the fields \<open>CreatedAt\<close>
  and \<open>UpdatedAt\<close> are equal. The function calls \<^verbatim>\<open>time.Now()\<close> once for each field.
  With a clock whose successive readings are 0 and 1, the call succeeds on the preset
  \<^verbatim>\<open>web-app\<close> and the two fields differ.
\<close>

theorem CreatedAt_differs_from_UpdatedAt:
  "\<not> isl (fst (CreateProjectFromPreset webAppManager range_listed tickingClock 0
       ''web-app'' ''blog'' ''development'')) \<and>
   cfg_CreatedAt (projr (fst (CreateProjectFromPreset webAppManager range_listed tickingClock 0
       ''web-app'' ''blog'' ''development''))) = 0 \<and>
   cfg_UpdatedAt (projr (fst (CreateProjectFromPreset webAppManager range_listed tickingClock 0
       ''web-app'' ''blog'' ''development''))) = 1"
  by (simp add: CreateProjectFromPreset_def GetPreset_def webAppManager_def
      loadPresetTemplateData_def Let_def tickingClock_def)

text \<open>
  C8, amended. After a successful \<open>CreateProjectFromPreset\<close>, \<open>CreatedAt\<close> is the
  reading of the clock at the first of two successive calls of \<^verbatim>\<open>time.Now()\<close> and
  \<open>UpdatedAt\<close> the reading at the second. The two fields are equal exactly when the
  clock returns the same reading twice, and \<open>CreatedAt\<close> is not later than \<open>UpdatedAt\<close>
  when the clock does not go backwards between the two calls.
\<close>

theorem timestamps_are_two_clock_readings:
  assumes "CreateProjectFromPreset m ro now n presetID projectName environment = (Inr config, n')"
  shows "cfg_CreatedAt config = now n \<and> cfg_UpdatedAt config = now (Suc n) \<and> n' = n + 2 \<and>
         (cfg_CreatedAt config = cfg_UpdatedAt config) = (now n = now (Suc n)) \<and>
         (now n \<le> now (Suc n) \<longrightarrow> cfg_CreatedAt config \<le> cfg_UpdatedAt config)"
  using assms
  by (auto simp: CreateProjectFromPreset_def Let_def loadPresetTemplateData_def
      split: sum.splits if_splits)

theorem timestamps_are_two_clock_readings_witness:
  "cfg_CreatedAt (projr (fst (CreateProjectFromPreset webAppManager range_listed tickingClock 0
       ''web-app'' ''blog'' ''development''))) = tickingClock 0 \<and>
   cfg_UpdatedAt (projr (fst (CreateProjectFromPreset webAppManager range_listed tickingClock 0
       ''web-app'' ''blog'' ''development''))) = tickingClock 1 \<and>
   snd (CreateProjectFromPreset webAppManager range_listed tickingClock 0
       ''web-app'' ''blog'' ''development'') = 2 \<and>
   tickingClock 0 \<le> tickingClock 1"
proof -
  let ?r = "CreateProjectFromPreset webAppManager range_listed tickingClock 0
       ''web-app'' ''blog'' ''development''"
  from webApp_created have "?r = (Inr (projr (fst ?r)), snd ?r)"
    by (cases "fst ?r") (simp_all add: prod_eq_iff)
  from timestamps_are_two_clock_readings [OF this] show ?thesis
    by (simp add: tickingClock_def)
qed

subsection \<open>Determinism\<close>











end
